theory Spec2Isabelle
  imports Complex_Main "HOL-Library.Sublist"
begin

section \<open>Python values, errors and HTTP messages\<close>

text \<open>
  A shallow embedding of \<^verbatim>\<open>src/delinea.py\<close> (class \<^verbatim>\<open>SSCreds\<close>).

  Values that come out of \<^verbatim>\<open>Response.json()\<close> are Python objects of any JSON shape, and
  the program stores them unvalidated (private attributes of a pydantic model and
  assignments to model fields are not validated), so they are modelled by a datatype of
  Python values. A finite float is represented by the real number it denotes: Python
  compares an int and a float by exact value. The non-finite floats that
  \<^verbatim>\<open>json.loads\<close> also accepts behave in every operation below as any float that is not
  an integer does.
\<close>

datatype pyval =
    PNone
  | PBool bool
  | PInt int
  | PFloat real
  | PStr string
  | PList "pyval list"
  | PDict "(string \<times> pyval) list"

text \<open>The exceptions the modelled code can raise or let through.\<close>

datatype error =
    HTTPStatusError
  | TransportError
  | RuntimeError string
  | JSONDecodeError
  | KeyError
  | TypeError
  | IndexError
  | AttributeError

datatype http_verb = GET | POST

text \<open>
  What is handed to \<^verbatim>\<open>httpx.Client.get\<close> / \<^verbatim>\<open>post\<close>: the URL string, the headers, the
  \<^verbatim>\<open>params\<close> argument (which httpx sends as the query string) and the \<^verbatim>\<open>data\<close> argument
  (the form body).
\<close>

record request =
  verb :: http_verb
  url :: string
  headers :: "(string \<times> string) list"
  params :: "(string \<times> pyval) list"
  data :: "(string \<times> pyval) list"

text \<open>
  An \<^verbatim>\<open>httpx.Response\<close>: status code, body text, and what \<^verbatim>\<open>.json()\<close> gives for the body
  (\<open>None\<close> when it raises a decoding error).
\<close>

record response =
  status_code :: int
  resp_text :: string
  resp_json :: "pyval option"

datatype reply = NetFail | Reply response

text \<open>
  The remote side: the reply to a request, given the requests sent before it. Every
  behaviour of a server, of the network and of time is some such function.
\<close>

type_synonym network = "request list \<Rightarrow> request \<Rightarrow> reply"

section \<open>Module state and the model class\<close>

text \<open>The module-level configuration read from the environment at import.\<close>

record config =
  SSAPP_USERNAME :: "string option"
  SSAPP_PASSWORD :: "string option"
  SSAPP_BASEURL :: "string option"

definition SEC_NAME_AS_IDENT :: "int list" where
  "SEC_NAME_AS_IDENT = [6041, 6047]"

text \<open>
  The process: the two module globals, the requests that have left the process (oldest
  first) and the lines printed.
\<close>

record world =
  current_access_token :: "string option"
  current_refresh_token :: "string option"
  sent :: "request list"
  stdout :: "string list"

datatype provenance = Cached | Server | Refreshed

text \<open>
  An instance of \<^verbatim>\<open>SSCreds\<close>. \<open>s_open\<close> says that \<^verbatim>\<open>_s\<close> holds a client (it is
  \<^verbatim>\<open>None\<close> otherwise); \<open>ident_cache\<close> and \<open>secret_cache\<close> are the slots that
  \<^verbatim>\<open>functools.cached_property\<close> fills in the instance dictionary.
\<close>

record SSCreds =
  secret_id :: int
  slug_ident :: string
  slug_secret :: string
  cache_access_token :: string
  cache_refresh_token :: string
  cache_refresh_ctr :: string
  s_open :: bool
  init_uuid :: string
  token_type :: provenance
  sec_template :: pyval
  sec_name :: pyval
  nolog :: bool
  ident_cache :: "pyval option"
  secret_cache :: "string option"

type_synonym 'a outcome = "(error + 'a) \<times> SSCreds \<times> world"

section \<open>Python and httpx primitives\<close>

text \<open>\<^verbatim>\<open>sub in s\<close> on strings: \<open>sub\<close> occurs in \<open>s\<close> as a contiguous block.\<close>

fun py_in_str :: "string \<Rightarrow> string \<Rightarrow> bool" where
  "py_in_str sub [] = (sub = [])"
| "py_in_str sub (c # cs) = (prefix sub (c # cs) \<or> py_in_str sub cs)"

text \<open>\<^verbatim>\<open>s.strip(c)\<close> for a single character \<open>c\<close>.\<close>

definition py_strip :: "char \<Rightarrow> string \<Rightarrow> string" where
  "py_strip c s = rev (dropWhile (\<lambda>x. x = c) (rev (dropWhile (\<lambda>x. x = c) s)))"

text \<open>\<^verbatim>\<open>v == n\<close> for an int \<open>n\<close>, and \<^verbatim>\<open>v in ns\<close> for a list of ints.\<close>

fun py_eq_int :: "pyval \<Rightarrow> int \<Rightarrow> bool" where
  "py_eq_int (PInt i) n = (i = n)"
| "py_eq_int (PFloat r) n = (r = of_int n)"
| "py_eq_int (PBool b) n = ((if b then 1 else 0) = n)"
| "py_eq_int _ n = False"

definition py_in_ints :: "pyval \<Rightarrow> int list \<Rightarrow> bool" where
  "py_in_ints v ns = list_ex (py_eq_int v) ns"

text \<open>
  \<^verbatim>\<open>v[k]\<close> for a string key and \<^verbatim>\<open>v[i]\<close> for an int index (a negative index counts
  from the end; out of range raises).
\<close>

fun py_getitem_str :: "pyval \<Rightarrow> string \<Rightarrow> error + pyval" where
  "py_getitem_str (PDict kvs) k = (case map_of kvs k of None \<Rightarrow> Inl KeyError | Some v \<Rightarrow> Inr v)"
| "py_getitem_str _ k = Inl TypeError"

definition py_index :: "'a list \<Rightarrow> int \<Rightarrow> error + 'a" where
  "py_index xs i =
     (if 0 \<le> i \<and> i < int (length xs) then Inr (xs ! nat i)
      else if i < 0 \<and> - int (length xs) \<le> i then Inr (xs ! nat (int (length xs) + i))
      else Inl IndexError)"

fun py_getitem_int :: "pyval \<Rightarrow> int \<Rightarrow> error + pyval" where
  "py_getitem_int (PStr s) i = (case py_index s i of Inl e \<Rightarrow> Inl e | Inr c \<Rightarrow> Inr (PStr [c]))"
| "py_getitem_int (PList xs) i = py_index xs i"
| "py_getitem_int (PDict kvs) i = Inl KeyError"
| "py_getitem_int _ i = Inl TypeError"

text \<open>\<^verbatim>\<open>Response.is_success\<close> and \<^verbatim>\<open>Response.raise_for_status()\<close> of httpx.\<close>

definition is_success :: "response \<Rightarrow> bool" where
  "is_success r = (200 \<le> status_code r \<and> status_code r \<le> 299)"

definition raise_for_status :: "response \<Rightarrow> error + unit" where
  "raise_for_status r = (if is_success r then Inr () else Inl HTTPStatusError)"

text \<open>Handing a request to the client: it is recorded, and the remote side replies.\<close>

definition send :: "network \<Rightarrow> request \<Rightarrow> world \<Rightarrow> (error + response) \<times> world" where
  "send net rq w =
     (case net (sent w) rq of
        NetFail \<Rightarrow> (Inl TransportError, w\<lparr>sent := sent w @ [rq]\<rparr>)
      | Reply r \<Rightarrow> (Inr r, w\<lparr>sent := sent w @ [rq]\<rparr>))"

definition opt_str :: "string option \<Rightarrow> pyval" where
  "opt_str x = (case x of None \<Rightarrow> PNone | Some s \<Rightarrow> PStr s)"

section \<open>Token resolution\<close>

definition cachedAccessToken :: "world \<Rightarrow> string option" where
  "cachedAccessToken w = current_access_token w"

definition cachedRefreshToken :: "world \<Rightarrow> string option" where
  "cachedRefreshToken w = current_refresh_token w"

text \<open>
  \<^verbatim>\<open>_getServerAccessToken\<close>. The two assignments under the comment "Save tokens to cache"
  bind names local to the method (it has no \<^verbatim>\<open>global\<close> statement), so the world's
  globals are returned as they were; the value returned is the local
  \<^verbatim>\<open>current_access_token\<close>, that is \<^verbatim>\<open>resp["access_token"]\<close>.
\<close>

definition getServerAccessToken :: "config \<Rightarrow> network \<Rightarrow> SSCreds \<Rightarrow> world \<Rightarrow> pyval outcome" where
  "getServerAccessToken cfg net self w =
     (if \<not> s_open self then (Inl AttributeError, self, w)
      else case SSAPP_BASEURL cfg of
        None \<Rightarrow> (Inl TypeError, self, w)
      | Some base \<Rightarrow>
         (case send net
                 \<lparr>verb = POST, url = base @ ''oauth2/token'', headers = [], params = [],
                  data = [(''grant_type'', PStr ''password''),
                          (''username'', opt_str (SSAPP_USERNAME cfg)),
                          (''password'', opt_str (SSAPP_PASSWORD cfg))]\<rparr> w of
            (Inl e, w1) \<Rightarrow> (Inl e, self, w1)
          | (Inr resp, w1) \<Rightarrow>
             (case raise_for_status resp of
                Inl e \<Rightarrow> (Inl e, self, w1)
              | Inr _ \<Rightarrow>
                 (case resp_json resp of
                    None \<Rightarrow> (Inl JSONDecodeError, self, w1)
                  | Some j \<Rightarrow>
                     (case py_getitem_str j ''access_token'' of
                        Inl e \<Rightarrow> (Inl e, self, w1)
                      | Inr access \<Rightarrow>
                         (case py_getitem_str j ''token_type'' of
                            Inl e \<Rightarrow> (Inl e, self, w1)
                          | Inr _ \<Rightarrow>
                             (case py_getitem_str j ''expires_in'' of
                                Inl e \<Rightarrow> (Inl e, self, w1)
                              | Inr _ \<Rightarrow>
                                 (case py_getitem_str j ''refresh_token'' of
                                    Inl e \<Rightarrow> (Inl e, self, w1)
                                  | Inr _ \<Rightarrow> (Inr access, self, w1)))))))))"

text \<open>\<^verbatim>\<open>_accessToken\<close>.\<close>

definition accessToken :: "config \<Rightarrow> network \<Rightarrow> SSCreds \<Rightarrow> world \<Rightarrow> pyval outcome" where
  "accessToken cfg net self w =
     (case cachedAccessToken w of
        Some t \<Rightarrow> (Inr (PStr t), self\<lparr>token_type := Cached\<rparr>, w)
      | None \<Rightarrow> getServerAccessToken cfg net self w)"

text \<open>\<^verbatim>\<open>_getHeaders\<close>: \<^verbatim>\<open>"Bearer " + token\<close> raises a TypeError unless the token is a string.\<close>

definition getHeaders :: "config \<Rightarrow> network \<Rightarrow> SSCreds \<Rightarrow> world \<Rightarrow> ((string \<times> string) list) outcome" where
  "getHeaders cfg net self w =
     (case accessToken cfg net self w of
        (Inl e, self1, w1) \<Rightarrow> (Inl e, self1, w1)
      | (Inr (PStr t), self1, w1) \<Rightarrow> (Inr [(''Authorization'', ''Bearer '' @ t)], self1, w1)
      | (Inr _, self1, w1) \<Rightarrow> (Inl TypeError, self1, w1))"

section \<open>Authenticated requests\<close>

definition access_denied :: error where
  "access_denied = RuntimeError ''Unable to retrieve secret, access denied.''"

text \<open>
  The inner function \<^verbatim>\<open>sendRequest\<close> of \<^verbatim>\<open>get\<close>. With no client, the call of the
  undefined method \<^verbatim>\<open>_initSession\<close> raises an AttributeError. The keyword arguments are
  evaluated in the order written: headers, then the URL.
\<close>

definition sendRequest ::
  "config \<Rightarrow> network \<Rightarrow> string \<Rightarrow> (string \<times> pyval) list \<Rightarrow> SSCreds \<Rightarrow> world \<Rightarrow> response outcome" where
  "sendRequest cfg net u ps self w =
     (if \<not> s_open self then (Inl AttributeError, self, w)
      else case getHeaders cfg net self w of
        (Inl e, self1, w1) \<Rightarrow> (Inl e, self1, w1)
      | (Inr hs, self1, w1) \<Rightarrow>
         (case SSAPP_BASEURL cfg of
            None \<Rightarrow> (Inl TypeError, self1, w1)
          | Some base \<Rightarrow>
             (case send net \<lparr>verb = GET, url = base @ u, headers = hs, params = ps, data = []\<rparr> w1 of
                (Inl e, w2) \<Rightarrow> (Inl e, self1, w2)
              | (Inr resp, w2) \<Rightarrow>
                 (case raise_for_status resp of
                    Inl e \<Rightarrow> (Inl e, self1, w2)
                  | Inr _ \<Rightarrow>
                     if py_in_str ''API_AccessDenied'' (resp_text resp)
                     then (Inl access_denied, self1, w2)
                     else (Inr resp, self1, w2)))))"

text \<open>
  \<^verbatim>\<open>get\<close>. In the branch of the expired-token marker the two assignments of \<^verbatim>\<open>None\<close>
  bind names local to \<^verbatim>\<open>get\<close> (no \<^verbatim>\<open>global\<close> statement, and \<^verbatim>\<open>sendRequest\<close> reads
  the token through the properties of the instance, not through these names), so the
  world keeps its globals; the line printed is recorded.
\<close>

definition get ::
  "config \<Rightarrow> network \<Rightarrow> string \<Rightarrow> (string \<times> pyval) list \<Rightarrow> SSCreds \<Rightarrow> world \<Rightarrow> response outcome" where
  "get cfg net u ps self w =
     (case sendRequest cfg net u ps self w of
        (Inl e, self1, w1) \<Rightarrow> (Inl e, self1, w1)
      | (Inr resp, self1, w1) \<Rightarrow>
         if py_in_str ''Authentication failed or expired token'' (resp_text resp)
         then (case sendRequest cfg net u ps self1
                      (w1\<lparr>stdout := stdout w1 @ [''Deleting token and repeating request'']\<rparr>) of
                 (Inl e, self2, w2) \<Rightarrow> (Inl e, self2, w2)
               | (Inr resp2, self2, w2) \<Rightarrow>
                  (case raise_for_status resp2 of
                     Inl e \<Rightarrow> (Inl e, self2, w2)
                   | Inr _ \<Rightarrow> (Inr resp2, self2, w2)))
         else (Inr resp, self1, w1))"

text \<open>\<^verbatim>\<open>post\<close>.\<close>

definition post ::
  "config \<Rightarrow> network \<Rightarrow> string \<Rightarrow> (string \<times> pyval) list \<Rightarrow> (string \<times> pyval) list \<Rightarrow>
   SSCreds \<Rightarrow> world \<Rightarrow> response outcome" where
  "post cfg net u d ps self w =
     (if \<not> s_open self then (Inl AttributeError, self, w)
      else case getHeaders cfg net self w of
        (Inl e, self1, w1) \<Rightarrow> (Inl e, self1, w1)
      | (Inr hs, self1, w1) \<Rightarrow>
         (case SSAPP_BASEURL cfg of
            None \<Rightarrow> (Inl TypeError, self1, w1)
          | Some base \<Rightarrow>
             (case send net \<lparr>verb = POST, url = base @ u, headers = hs, params = ps, data = d\<rparr> w1 of
                (Inl e, w2) \<Rightarrow> (Inl e, self1, w2)
              | (Inr resp, w2) \<Rightarrow>
                 (case raise_for_status resp of
                    Inl e \<Rightarrow> (Inl e, self1, w2)
                  | Inr _ \<Rightarrow> (Inr resp, self1, w2)))))"

section \<open>Secret retrieval\<close>

text \<open>\<^verbatim>\<open>_getSlug\<close>; the \<^verbatim>\<open>try\<close> re-raises what it catches.\<close>

definition getSlug :: "config \<Rightarrow> network \<Rightarrow> string \<Rightarrow> SSCreds \<Rightarrow> world \<Rightarrow> string outcome" where
  "getSlug cfg net slug self w =
     (case get cfg net ''api/v1/secrets/{id}/fields/{slug}''
             [(''id'', PInt (secret_id self)), (''slug'', PStr slug)] self w of
        (Inl e, self1, w1) \<Rightarrow> (Inl e, self1, w1)
      | (Inr resp, self1, w1) \<Rightarrow>
         (case raise_for_status resp of
            Inl e \<Rightarrow> (Inl e, self1, w1)
          | Inr _ \<Rightarrow> (Inr (py_strip (CHR 0x22) (resp_text resp)), self1, w1)))"

text \<open>\<^verbatim>\<open>_getTOTP\<close>: it returns the stripped body text, as \<^verbatim>\<open>_getSlug\<close> does.\<close>

definition getTOTP :: "config \<Rightarrow> network \<Rightarrow> SSCreds \<Rightarrow> world \<Rightarrow> string outcome" where
  "getTOTP cfg net self w =
     (case get cfg net ''api/v1/one-time-password-code/{id}''
             [(''id'', PInt (secret_id self))] self w of
        (Inl e, self1, w1) \<Rightarrow> (Inl e, self1, w1)
      | (Inr resp, self1, w1) \<Rightarrow>
         (case raise_for_status resp of
            Inl e \<Rightarrow> (Inl e, self1, w1)
          | Inr _ \<Rightarrow> (Inr (py_strip (CHR 0x22) (resp_text resp)), self1, w1)))"

text \<open>\<^verbatim>\<open>_getSecretSummary\<close>.\<close>

definition getSecretSummary :: "config \<Rightarrow> network \<Rightarrow> SSCreds \<Rightarrow> world \<Rightarrow> pyval outcome" where
  "getSecretSummary cfg net self w =
     (case get cfg net ''api/v1/secrets/{id}/summary'' [(''id'', PInt (secret_id self))] self w of
        (Inl e, self1, w1) \<Rightarrow> (Inl e, self1, w1)
      | (Inr resp, self1, w1) \<Rightarrow>
         (case resp_json resp of
            None \<Rightarrow> (Inl JSONDecodeError, self1, w1)
          | Some j \<Rightarrow> (Inr j, self1, w1)))"

text \<open>
  The property \<^verbatim>\<open>otp\<close>: \<^verbatim>\<open>self._getTOTP()[0]["code"]\<close>, evaluated at every access.
\<close>

definition otp :: "config \<Rightarrow> network \<Rightarrow> SSCreds \<Rightarrow> world \<Rightarrow> pyval outcome" where
  "otp cfg net self w =
     (case getTOTP cfg net self w of
        (Inl e, self1, w1) \<Rightarrow> (Inl e, self1, w1)
      | (Inr t, self1, w1) \<Rightarrow>
         (case py_getitem_int (PStr t) 0 of
            Inl e \<Rightarrow> (Inl e, self1, w1)
          | Inr first \<Rightarrow> (py_getitem_str first ''code'', self1, w1)))"

text \<open>
  The body of the cached property \<^verbatim>\<open>ident\<close>, and the property itself: the value found
  in the instance dictionary is returned without running the body; a body that returns
  has its value stored, a body that raises stores nothing.
\<close>

definition sentinel :: string where
  "sentinel = ''$self._sec_name''"

definition name_as_ident :: "SSCreds \<Rightarrow> bool" where
  "name_as_ident self =
     (slug_ident self = sentinel \<or> py_in_ints (sec_template self) SEC_NAME_AS_IDENT)"

definition ident_body :: "config \<Rightarrow> network \<Rightarrow> SSCreds \<Rightarrow> world \<Rightarrow> pyval outcome" where
  "ident_body cfg net self w =
     (if name_as_ident self
      then (Inr (sec_name self), self\<lparr>slug_ident := sentinel\<rparr>, w)
      else case getSlug cfg net (slug_ident self) self w of
        (Inl e, self1, w1) \<Rightarrow> (Inl e, self1, w1)
      | (Inr v, self1, w1) \<Rightarrow> (Inr (PStr v), self1, w1))"

definition ident :: "config \<Rightarrow> network \<Rightarrow> SSCreds \<Rightarrow> world \<Rightarrow> pyval outcome" where
  "ident cfg net self w =
     (case ident_cache self of
        Some v \<Rightarrow> (Inr v, self, w)
      | None \<Rightarrow>
         (case ident_body cfg net self w of
            (Inl e, self1, w1) \<Rightarrow> (Inl e, self1, w1)
          | (Inr v, self1, w1) \<Rightarrow> (Inr v, self1\<lparr>ident_cache := Some v\<rparr>, w1)))"

text \<open>The cached property \<^verbatim>\<open>secret\<close>.\<close>

definition secret :: "config \<Rightarrow> network \<Rightarrow> SSCreds \<Rightarrow> world \<Rightarrow> string outcome" where
  "secret cfg net self w =
     (case secret_cache self of
        Some v \<Rightarrow> (Inr v, self, w)
      | None \<Rightarrow>
         (case getSlug cfg net (slug_secret self) self w of
            (Inl e, self1, w1) \<Rightarrow> (Inl e, self1, w1)
          | (Inr v, self1, w1) \<Rightarrow> (Inr v, self1\<lparr>secret_cache := Some v\<rparr>, w1)))"

section \<open>Construction\<close>

text \<open>The field defaults of the class; the uuid is the one the default factory drew.\<close>

definition new_SSCreds :: "int \<Rightarrow> string \<Rightarrow> string \<Rightarrow> string \<Rightarrow> SSCreds" where
  "new_SSCreds sid si ss uuid =
     \<lparr>secret_id = sid, slug_ident = si, slug_secret = ss,
      cache_access_token = ''delinea:access_token'',
      cache_refresh_token = ''delinea:refresh_token'',
      cache_refresh_ctr = ''delinea:refresh_ctr'',
      s_open = False, init_uuid = uuid, token_type = Cached,
      sec_template = PInt 0, sec_name = PNone, nolog = False,
      ident_cache = None, secret_cache = None\<rparr>"

text \<open>\<^verbatim>\<open>model_post_init\<close>.\<close>

definition model_post_init :: "config \<Rightarrow> network \<Rightarrow> SSCreds \<Rightarrow> world \<Rightarrow> unit outcome" where
  "model_post_init cfg net self w =
     (case getSecretSummary cfg net (self\<lparr>s_open := True\<rparr>)
             (w\<lparr>stdout := stdout w @ [''Initializing Credential Request: '' @ init_uuid self]\<rparr>) of
        (Inl e, self1, w1) \<Rightarrow> (Inl e, self1, w1)
      | (Inr sec_summ, self1, w1) \<Rightarrow>
         (case py_getitem_str sec_summ ''secretTemplateId'' of
            Inl e \<Rightarrow> (Inl e, self1, w1)
          | Inr t \<Rightarrow>
             (case py_getitem_str sec_summ ''name'' of
                Inl e \<Rightarrow> (Inl e, self1\<lparr>sec_template := t\<rparr>, w1)
              | Inr n \<Rightarrow> (Inr (), self1\<lparr>sec_template := t, sec_name := n\<rparr>, w1))))"

text \<open>
  \<^verbatim>\<open>SSCreds(secret_id=..., slug_ident=..., slug_secret=...)\<close>: the caller gets an instance
  only when \<^verbatim>\<open>model_post_init\<close> returns.
\<close>

definition construct ::
  "config \<Rightarrow> network \<Rightarrow> int \<Rightarrow> string \<Rightarrow> string \<Rightarrow> string \<Rightarrow> world \<Rightarrow> (error + SSCreds) \<times> world" where
  "construct cfg net sid si ss uuid w =
     (case model_post_init cfg net (new_SSCreds sid si ss uuid) w of
        (Inl e, self1, w1) \<Rightarrow> (Inl e, w1)
      | (Inr _, self1, w1) \<Rightarrow> (Inr self1, w1))"

text \<open>
  The lifetime of an instance: any sequence of calls of its public members, each of which
  may return or raise; the instance and the process go on either way.
\<close>

datatype call =
    CallIdent
  | CallSecret
  | CallOtp
  | CallGet string "(string \<times> pyval) list"
  | CallPost string "(string \<times> pyval) list" "(string \<times> pyval) list"

fun exec :: "config \<Rightarrow> network \<Rightarrow> call \<Rightarrow> SSCreds \<Rightarrow> world \<Rightarrow> SSCreds \<times> world" where
  "exec cfg net CallIdent self w = snd (ident cfg net self w)"
| "exec cfg net CallSecret self w = snd (secret cfg net self w)"
| "exec cfg net CallOtp self w = snd (otp cfg net self w)"
| "exec cfg net (CallGet u ps) self w = snd (get cfg net u ps self w)"
| "exec cfg net (CallPost u d ps) self w = snd (post cfg net u d ps self w)"

fun run :: "config \<Rightarrow> network \<Rightarrow> call list \<Rightarrow> SSCreds \<Rightarrow> world \<Rightarrow> SSCreds \<times> world" where
  "run cfg net [] self w = (self, w)"
| "run cfg net (c # cs) self w = (case exec cfg net c self w of (self1, w1) \<Rightarrow> run cfg net cs self1 w1)"

section \<open>Predicates used in the statements\<close>

text \<open>The two module globals are the same in both worlds.\<close>

definition same_globals :: "world \<Rightarrow> world \<Rightarrow> bool" where
  "same_globals w w' =
     (current_access_token w' = current_access_token w \<and>
      current_refresh_token w' = current_refresh_token w)"

text \<open>The second instance differs from the first in the field \<open>token_type\<close> at most.\<close>

definition only_token_type :: "SSCreds \<Rightarrow> SSCreds \<Rightarrow> bool" where
  "only_token_type self self' = (self' = self\<lparr>token_type := token_type self'\<rparr>)"

text \<open>
  A GET that the remote side, after the requests \<open>hist\<close>, answers with a success status and
  a body carrying the access-denied marker; and whether a run of requests sent one after
  the other, starting after \<open>hist\<close>, holds such a GET.
\<close>

definition denied_get :: "network \<Rightarrow> request list \<Rightarrow> request \<Rightarrow> bool" where
  "denied_get net hist rq =
     (verb rq = GET \<and>
      (case net hist rq of
         NetFail \<Rightarrow> False
       | Reply resp \<Rightarrow> is_success resp \<and> py_in_str ''API_AccessDenied'' (resp_text resp)))"

fun any_denied :: "network \<Rightarrow> request list \<Rightarrow> request list \<Rightarrow> bool" where
  "any_denied net hist [] = False"
| "any_denied net hist (rq # rest) = (denied_get net hist rq \<or> any_denied net (hist @ [rq]) rest)"

text \<open>The checks that one send of \<^verbatim>\<open>get\<close> applies to the reply to its GET, as one function.\<close>

definition checked :: "response \<Rightarrow> error + response" where
  "checked resp =
     (if \<not> is_success resp then Inl HTTPStatusError
      else if py_in_str ''API_AccessDenied'' (resp_text resp) then Inl access_denied
      else Inr resp)"

text \<open>
  What holds of an instance whose \<open>ident\<close> slot is filled: if the name stands for the
  identity, the slug has been rewritten and the slot holds the name.
\<close>

definition memo_inv :: "SSCreds \<Rightarrow> bool" where
  "memo_inv self =
     (case ident_cache self of
        None \<Rightarrow> True
      | Some v \<Rightarrow> \<not> name_as_ident self \<or> (slug_ident self = sentinel \<and> v = sec_name self))"

section \<open>Concrete processes\<close>

text \<open>
  A configuration, replies of the remote side and worlds on which the definitions are
  evaluated.
\<close>

definition ex_cfg :: config where
  "ex_cfg = \<lparr>SSAPP_USERNAME = Some ''svc'', SSAPP_PASSWORD = Some ''pw'',
             SSAPP_BASEURL = Some ''https://vault.example/''\<rparr>"

definition token_page :: response where
  \<open>token_page = \<lparr>status_code = 200,
     resp_text = ''{"access_token":"tok1","token_type":"bearer","expires_in":1200,"refresh_token":"ref1"}'',
     resp_json = Some (PDict [(''access_token'', PStr ''tok1''), (''token_type'', PStr ''bearer''),
                              (''expires_in'', PInt 1200), (''refresh_token'', PStr ''ref1'')])\<rparr>\<close>

definition expired_page :: response where
  "expired_page = \<lparr>status_code = 200, resp_text = ''Authentication failed or expired token'',
                    resp_json = None\<rparr>"

definition field_page :: response where
  \<open>field_page = \<lparr>status_code = 200, resp_text = ''"svc-acct"'', resp_json = Some (PStr ''svc-acct'')\<rparr>\<close>

definition summary_page :: response where
  \<open>summary_page = \<lparr>status_code = 200,
     resp_text = ''{"id":1234,"name":"svc-iam","secretTemplateId":6041}'',
     resp_json = Some (PDict [(''id'', PInt 1234), (''name'', PStr ''svc-iam''),
                              (''secretTemplateId'', PInt 6041)])\<rparr>\<close>

definition denied_page :: response where
  \<open>denied_page = \<lparr>status_code = 200,
     resp_text = ''{"errorCode":"API_AccessDenied","message":"Access Denied"}'',
     resp_json = Some (PDict [(''errorCode'', PStr ''API_AccessDenied''),
                              (''message'', PStr ''Access Denied'')])\<rparr>\<close>

definition otp_page :: response where
  \<open>otp_page = \<lparr>status_code = 200,
     resp_text = ''[{"code":"123456","durationSeconds":30,"remainingSeconds":12}]'',
     resp_json = Some (PList [PDict [(''code'', PStr ''123456''), (''durationSeconds'', PInt 30),
                                     (''remainingSeconds'', PInt 12)]])\<rparr>\<close>

definition fresh_world :: world where
  "fresh_world = \<lparr>current_access_token = None, current_refresh_token = None, sent = [], stdout = []\<rparr>"

definition stale_world :: world where
  "stale_world = \<lparr>current_access_token = Some ''stale'', current_refresh_token = Some ''old'',
                    sent = [], stdout = []\<rparr>"

text \<open>
  Remote sides. Each grants a token to every POST. \<open>grant_net\<close> answers every GET with a
  field value; \<open>svc_net\<close> serves the summary, the one-time-password list and field
  values; \<open>expired_once_net\<close> answers the first GET with the expired-token marker;
  \<open>always_expired_net\<close> answers every GET with it; \<open>denied_net\<close> answers every GET with
  the access-denied marker; \<open>denied_on_retry_net\<close> answers the first GET with the
  expired-token marker and the later ones with the access-denied marker.
\<close>

definition grant_net :: network where
  "grant_net hist rq = (if verb rq = POST then Reply token_page else Reply field_page)"

definition svc_net :: network where
  "svc_net hist rq =
     (if verb rq = POST then Reply token_page
      else if url rq = ''https://vault.example/api/v1/secrets/{id}/summary'' then Reply summary_page
      else if url rq = ''https://vault.example/api/v1/one-time-password-code/{id}'' then Reply otp_page
      else Reply field_page)"

definition expired_once_net :: network where
  "expired_once_net hist rq =
     (if verb rq = POST then Reply token_page
      else if list_ex (\<lambda>r. verb r = GET) hist then Reply field_page
      else Reply expired_page)"

definition always_expired_net :: network where
  "always_expired_net hist rq = (if verb rq = POST then Reply token_page else Reply expired_page)"

definition denied_net :: network where
  "denied_net hist rq = (if verb rq = POST then Reply token_page else Reply denied_page)"

definition denied_on_retry_net :: network where
  "denied_on_retry_net hist rq =
     (if verb rq = POST then Reply token_page
      else if list_ex (\<lambda>r. verb r = GET) hist then Reply denied_page
      else Reply expired_page)"

text \<open>
  Instances with their client open, as \<^verbatim>\<open>model_post_init\<close> leaves it; \<open>svc_self\<close> and
  \<open>svc_world\<close> are what the construction for secret 1234 against \<open>svc_net\<close> yields.
\<close>

definition ex_self :: SSCreds where
  "ex_self = (new_SSCreds 1234 ''username'' ''password'' ''u1'')\<lparr>s_open := True\<rparr>"

definition other_self :: SSCreds where
  "other_self = (new_SSCreds 99 ''login'' ''pin'' ''u2'')\<lparr>s_open := True\<rparr>"

definition svc_self :: SSCreds where
  "svc_self = (new_SSCreds 1234 ''username'' ''password'' ''u1'')
                \<lparr>s_open := True, sec_template := PInt 6041, sec_name := PStr ''svc-iam''\<rparr>"

definition svc_world :: world where
  "svc_world =
     \<lparr>current_access_token = None, current_refresh_token = None,
      sent = [\<lparr>verb = POST, url = ''https://vault.example/oauth2/token'', headers = [], params = [],
               data = [(''grant_type'', PStr ''password''), (''username'', PStr ''svc''),
                       (''password'', PStr ''pw'')]\<rparr>,
              \<lparr>verb = GET, url = ''https://vault.example/api/v1/secrets/{id}/summary'',
               headers = [(''Authorization'', ''Bearer tok1'')], params = [(''id'', PInt 1234)],
               data = []\<rparr>],
      stdout = [''Initializing Credential Request: u1'']\<rparr>"

section \<open>Basic facts\<close>

lemmas model_defs = get_def sendRequest_def getHeaders_def accessToken_def getServerAccessToken_def
  send_def raise_for_status_def is_success_def cachedAccessToken_def opt_str_def access_denied_def
  getSlug_def getTOTP_def getSecretSummary_def otp_def ident_def ident_body_def secret_def
  model_post_init_def construct_def new_SSCreds_def post_def name_as_ident_def sentinel_def
  py_in_ints_def SEC_NAME_AS_IDENT_def py_strip_def py_index_def

lemmas ex_defs = ex_cfg_def token_page_def expired_page_def field_page_def fresh_world_def
  stale_world_def grant_net_def expired_once_net_def ex_self_def

lemmas ex_defs2 = ex_defs summary_page_def denied_page_def otp_page_def svc_net_def denied_net_def
  denied_on_retry_net_def always_expired_net_def svc_self_def svc_world_def other_self_def

text \<open>\<open>py_in_str\<close> is the substring test.\<close>

lemma py_in_str_iff: "py_in_str sub s \<longleftrightarrow> (\<exists>p q. s = p @ sub @ q)"
proof (induction s)
  case Nil
  then show ?case by auto
next
  case (Cons c cs)
  show ?case
  proof
    assume "py_in_str sub (c # cs)"
    then consider "prefix sub (c # cs)" | "py_in_str sub cs" by auto
    then show "\<exists>p q. c # cs = p @ sub @ q"
    proof cases
      case 1
      then obtain q where "c # cs = sub @ q" by (auto simp: prefix_def)
      then have "c # cs = [] @ sub @ q" by simp
      then show ?thesis by blast
    next
      case 2
      with Cons obtain p q where "cs = p @ sub @ q" by blast
      then have "c # cs = (c # p) @ sub @ q" by simp
      then show ?thesis by blast
    qed
  next
    assume "\<exists>p q. c # cs = p @ sub @ q"
    then obtain p q where pq: "c # cs = p @ sub @ q" by blast
    show "py_in_str sub (c # cs)"
    proof (cases p)
      case Nil
      with pq have "prefix sub (c # cs)" by (simp add: prefix_def)
      then show ?thesis by simp
    next
      case (Cons a p')
      with pq have "cs = p' @ sub @ q" by simp
      with Cons.IH have "py_in_str sub cs" by blast
      then show ?thesis by simp
    qed
  qed
qed

text \<open>Stripping the quotes of a JSON-quoted body.\<close>

lemma py_strip_hello: \<open>py_strip (CHR 0x22) ''"hello"'' = ''hello''\<close>
  by (simp add: py_strip_def)

section \<open>What the members leave unchanged\<close>

text \<open>
  No member writes the module globals, and the request members change no field of the
  instance but \<open>token_type\<close>.
\<close>

lemma same_globals_refl: "same_globals w w"
  by (simp add: same_globals_def)

lemma same_globals_trans: "same_globals w w1 \<Longrightarrow> same_globals w1 w2 \<Longrightarrow> same_globals w w2"
  by (simp add: same_globals_def)

lemma only_token_type_refl: "only_token_type self self"
  by (simp add: only_token_type_def)

lemma only_token_type_trans:
  "only_token_type s s1 \<Longrightarrow> only_token_type s1 s2 \<Longrightarrow> only_token_type s s2"
  unfolding only_token_type_def
  by (metis SSCreds.surjective SSCreds.update_convs(9))

lemma only_token_type_fields:
  assumes "only_token_type s s'"
  shows "ident_cache s' = ident_cache s" "secret_cache s' = secret_cache s"
    "slug_ident s' = slug_ident s" "slug_secret s' = slug_secret s"
    "sec_template s' = sec_template s" "sec_name s' = sec_name s"
    "s_open s' = s_open s" "secret_id s' = secret_id s"
proof -
  from assms have e: "s' = s\<lparr>token_type := token_type s'\<rparr>" by (simp add: only_token_type_def)
  show "ident_cache s' = ident_cache s" by (subst e) simp
  show "secret_cache s' = secret_cache s" by (subst e) simp
  show "slug_ident s' = slug_ident s" by (subst e) simp
  show "slug_secret s' = slug_secret s" by (subst e) simp
  show "sec_template s' = sec_template s" by (subst e) simp
  show "sec_name s' = sec_name s" by (subst e) simp
  show "s_open s' = s_open s" by (subst e) simp
  show "secret_id s' = secret_id s" by (subst e) simp
qed

lemma send_globals: "send net rq w = (r, w') \<Longrightarrow> same_globals w w'"
  by (auto simp: send_def same_globals_def split: reply.splits)

lemma getServerAccessToken_frame:
  "getServerAccessToken cfg net self w = (r, self', w') \<Longrightarrow> self' = self \<and> same_globals w w'"
  unfolding getServerAccessToken_def
  by (auto split: if_splits option.splits prod.splits sum.splits dest: send_globals
           simp: same_globals_refl)

lemma accessToken_frame:
  "accessToken cfg net self w = (r, self', w') \<Longrightarrow> only_token_type self self' \<and> same_globals w w'"
  unfolding accessToken_def
  by (auto split: option.splits dest: getServerAccessToken_frame
           simp: same_globals_refl only_token_type_def)

lemma getHeaders_frame:
  "getHeaders cfg net self w = (r, self', w') \<Longrightarrow> only_token_type self self' \<and> same_globals w w'"
  unfolding getHeaders_def
  by (auto split: prod.splits sum.splits pyval.splits dest: accessToken_frame)

lemma sendRequest_frame:
  "sendRequest cfg net u ps self w = (r, self', w') \<Longrightarrow> only_token_type self self' \<and> same_globals w w'"
  unfolding sendRequest_def
  by (auto split: if_splits option.splits prod.splits sum.splits
           dest!: getHeaders_frame send_globals
           intro: same_globals_trans simp: same_globals_refl only_token_type_refl)

lemma get_frame:
  "get cfg net u ps self w = (r, self', w') \<Longrightarrow> only_token_type self self' \<and> same_globals w w'"
  unfolding get_def
  by (auto split: if_splits prod.splits sum.splits
           dest!: sendRequest_frame
           intro: only_token_type_trans simp: same_globals_def)

lemma post_frame:
  "post cfg net u d ps self w = (r, self', w') \<Longrightarrow> only_token_type self self' \<and> same_globals w w'"
  unfolding post_def
  by (auto split: if_splits option.splits prod.splits sum.splits
           dest!: getHeaders_frame send_globals
           intro: same_globals_trans simp: same_globals_refl only_token_type_refl)

lemma getSlug_frame:
  "getSlug cfg net slug self w = (r, self', w') \<Longrightarrow> only_token_type self self' \<and> same_globals w w'"
  unfolding getSlug_def
  by (auto split: prod.splits sum.splits dest!: get_frame)

lemma getTOTP_frame:
  "getTOTP cfg net self w = (r, self', w') \<Longrightarrow> only_token_type self self' \<and> same_globals w w'"
  unfolding getTOTP_def
  by (auto split: prod.splits sum.splits dest!: get_frame)

lemma getSecretSummary_frame:
  "getSecretSummary cfg net self w = (r, self', w') \<Longrightarrow> only_token_type self self' \<and> same_globals w w'"
  unfolding getSecretSummary_def
  by (auto split: prod.splits sum.splits option.splits dest!: get_frame)

lemma otp_frame:
  "otp cfg net self w = (r, self', w') \<Longrightarrow> only_token_type self self' \<and> same_globals w w'"
  unfolding otp_def
  by (auto split: prod.splits sum.splits dest!: getTOTP_frame)

section \<open>The requests a send leaves behind\<close>

lemma any_denied_append:
  "any_denied net h (a @ b) = (any_denied net h a \<or> any_denied net (h @ a) b)"
  by (induction a arbitrary: h) auto

lemma any_denied_posts: "list_all (\<lambda>rq. verb rq = POST) ext \<Longrightarrow> \<not> any_denied net h ext"
  by (induction ext arbitrary: h) (auto simp: denied_get_def)

lemma send_sent:
  "send net rq w = (r, w') \<Longrightarrow>
     sent w' = sent w @ [rq] \<and>
     r = (case net (sent w) rq of NetFail \<Rightarrow> Inl TransportError | Reply x \<Rightarrow> Inr x)"
  by (auto simp: send_def split: reply.splits)

lemma getServerAccessToken_sent:
  "getServerAccessToken cfg net self w = (r, self', w') \<Longrightarrow>
     \<exists>ext. sent w' = sent w @ ext \<and> list_all (\<lambda>rq. verb rq = POST) ext"
  unfolding getServerAccessToken_def
  by (auto split: if_splits option.splits prod.splits sum.splits dest!: send_sent)

lemma accessToken_sent:
  "accessToken cfg net self w = (r, self', w') \<Longrightarrow>
     \<exists>ext. sent w' = sent w @ ext \<and> list_all (\<lambda>rq. verb rq = POST) ext"
  unfolding accessToken_def
  by (auto split: option.splits dest: getServerAccessToken_sent)

lemma getHeaders_sent:
  "getHeaders cfg net self w = (r, self', w') \<Longrightarrow>
     \<exists>ext. sent w' = sent w @ ext \<and> list_all (\<lambda>rq. verb rq = POST) ext"
  unfolding getHeaders_def
  by (auto split: prod.splits sum.splits pyval.splits dest: accessToken_sent)

text \<open>One send of \<^verbatim>\<open>get\<close>, when the token resolves and the remote side replies.\<close>

lemma sendRequest_unfold:
  assumes "s_open self" and "SSAPP_BASEURL cfg = Some base"
    and "getHeaders cfg net self w = (Inr hs, self1, w1)"
    and "net (sent w1) \<lparr>verb = GET, url = base @ u, headers = hs, params = ps, data = []\<rparr> = Reply resp"
  shows "sendRequest cfg net u ps self w =
           (checked resp, self1,
            w1\<lparr>sent := sent w1 @ [\<lparr>verb = GET, url = base @ u, headers = hs, params = ps, data = []\<rparr>]\<rparr>)"
  using assms
  by (simp add: sendRequest_def send_def checked_def raise_for_status_def)

lemma sendRequest_sent:
  assumes "sendRequest cfg net u ps self w = (r, self', w')"
  shows "\<exists>ext. sent w' = sent w @ ext \<and> (any_denied net (sent w) ext \<longrightarrow> r = Inl access_denied)"
proof (cases "s_open self")
  case False
  with assms have "sent w' = sent w @ []" by (simp add: sendRequest_def)
  then show ?thesis by fastforce
next
  case True
  obtain rh s1 w1 where h: "getHeaders cfg net self w = (rh, s1, w1)"
    by (metis prod_cases3)
  from getHeaders_sent[OF h] obtain pre where
    pre: "sent w1 = sent w @ pre" "list_all (\<lambda>rq. verb rq = POST) pre" by blast
  show ?thesis
  proof (cases rh)
    case (Inl e)
    with assms True h have "w' = w1" by (simp add: sendRequest_def)
    with pre show ?thesis using any_denied_posts by blast
  next
    case (Inr hs)
    show ?thesis
    proof (cases "SSAPP_BASEURL cfg")
      case None
      with assms True h Inr have "w' = w1" by (simp add: sendRequest_def)
      with pre show ?thesis using any_denied_posts by blast
    next
      case (Some base)
      let ?rq = "\<lparr>verb = GET, url = base @ u, headers = hs, params = ps, data = []\<rparr>"
      from assms True h Inr Some
      have w': "sent w' = sent w1 @ [?rq]"
        by (auto simp: sendRequest_def send_def split: reply.splits sum.splits if_splits)
      have r: "denied_get net (sent w1) ?rq \<Longrightarrow> r = Inl access_denied"
        using assms True h Inr Some
        by (auto simp: sendRequest_def send_def denied_get_def raise_for_status_def is_success_def
                 split: reply.splits sum.splits if_splits)
      have "sent w' = sent w @ (pre @ [?rq])" using w' pre by simp
      moreover have "any_denied net (sent w) (pre @ [?rq]) \<Longrightarrow> r = Inl access_denied"
        using r pre any_denied_posts[OF pre(2)] by (simp add: any_denied_append)
      ultimately show ?thesis by blast
    qed
  qed
qed

lemma sendRequest_returns:
  assumes "sendRequest cfg net u ps self w = (Inr resp, self', w')"
  shows "\<exists>base hs pre. SSAPP_BASEURL cfg = Some base \<and>
           sent w' = pre @ [\<lparr>verb = GET, url = base @ u, headers = hs, params = ps, data = []\<rparr>] \<and>
           net pre \<lparr>verb = GET, url = base @ u, headers = hs, params = ps, data = []\<rparr> = Reply resp \<and>
           is_success resp \<and> \<not> py_in_str ''API_AccessDenied'' (resp_text resp)"
  using assms unfolding sendRequest_def
  by (auto simp: send_def raise_for_status_def
           split: if_splits option.splits prod.splits sum.splits reply.splits)

lemma get_returns:
  assumes "get cfg net u ps self w = (Inr resp, self', w')"
  shows "\<exists>base hs pre. SSAPP_BASEURL cfg = Some base \<and>
           sent w' = pre @ [\<lparr>verb = GET, url = base @ u, headers = hs, params = ps, data = []\<rparr>] \<and>
           net pre \<lparr>verb = GET, url = base @ u, headers = hs, params = ps, data = []\<rparr> = Reply resp \<and>
           is_success resp \<and> \<not> py_in_str ''API_AccessDenied'' (resp_text resp)"
proof -
  obtain r1 s1 w1 where s1: "sendRequest cfg net u ps self w = (r1, s1, w1)"
    by (metis prod_cases3)
  show ?thesis
  proof (cases "\<exists>x. r1 = Inr x \<and> py_in_str ''Authentication failed or expired token'' (resp_text x)")
    case False
    with assms s1 have "sendRequest cfg net u ps self w = (Inr resp, self', w')"
      by (auto simp: get_def split: sum.splits if_splits)
    then show ?thesis by (rule sendRequest_returns)
  next
    case True
    with assms s1
    have "sendRequest cfg net u ps s1
            (w1\<lparr>stdout := stdout w1 @ [''Deleting token and repeating request'']\<rparr>) = (Inr resp, self', w')"
      by (auto simp: get_def split: sum.splits if_splits prod.splits)
    then show ?thesis by (rule sendRequest_returns)
  qed
qed

section \<open>The memoized accessors\<close>

text \<open>The ways an access of \<open>ident\<close> and of \<open>secret\<close> can go.\<close>

lemma ident_cached: "ident_cache self = Some v \<Longrightarrow> ident cfg net self w = (Inr v, self, w)"
  by (simp add: ident_def)

lemma secret_cached: "secret_cache self = Some v \<Longrightarrow> secret cfg net self w = (Inr v, self, w)"
  by (simp add: secret_def)

lemma ident_by_name:
  "ident_cache self = None \<Longrightarrow> name_as_ident self \<Longrightarrow>
   ident cfg net self w =
     (Inr (sec_name self), self\<lparr>slug_ident := sentinel, ident_cache := Some (sec_name self)\<rparr>, w)"
  by (simp add: ident_def ident_body_def)

lemma ident_by_slug:
  assumes "ident_cache self = None" and "\<not> name_as_ident self"
    and "ident cfg net self w = (r, self', w')"
  shows "\<exists>s1. only_token_type self s1 \<and> same_globals w w' \<and>
           (case r of Inl e \<Rightarrow> self' = s1 | Inr v \<Rightarrow> self' = s1\<lparr>ident_cache := Some v\<rparr>)"
  using assms
  by (auto simp: ident_def ident_body_def split: prod.splits sum.splits dest!: getSlug_frame)

lemma secret_fresh:
  assumes "secret_cache self = None" and "secret cfg net self w = (r, self', w')"
  shows "\<exists>s1. only_token_type self s1 \<and> same_globals w w' \<and>
           (case r of Inl e \<Rightarrow> self' = s1 | Inr v \<Rightarrow> self' = s1\<lparr>secret_cache := Some v\<rparr>)"
  using assms
  by (auto simp: secret_def split: prod.splits sum.splits dest!: getSlug_frame)

lemma ident_returns_cached:
  assumes "ident cfg net self w = (Inr v, self', w')"
  shows "ident_cache self' = Some v"
proof (cases "ident_cache self")
  case (Some x)
  with assms show ?thesis by (simp add: ident_def)
next
  case None
  show ?thesis
  proof (cases "name_as_ident self")
    case True
    with None assms show ?thesis by (auto simp: ident_by_name)
  next
    case False
    from ident_by_slug[OF None False assms] show ?thesis by auto
  qed
qed

lemma secret_returns_cached:
  assumes "secret cfg net self w = (Inr v, self', w')"
  shows "secret_cache self' = Some v"
proof (cases "secret_cache self")
  case (Some x)
  with assms show ?thesis by (simp add: secret_def)
next
  case None
  from secret_fresh[OF None assms] show ?thesis by auto
qed

text \<open>What each member, and any sequence of calls, keeps.\<close>

lemma ident_keeps:
  assumes "ident cfg net self w = (r, self', w')"
  shows "secret_cache self' = secret_cache self" "sec_template self' = sec_template self"
    "sec_name self' = sec_name self"
    "ident_cache self = Some v \<Longrightarrow> ident_cache self' = Some v"
    "memo_inv self \<Longrightarrow> memo_inv self'"
    "same_globals w w'"
proof -
  consider (c) x where "ident_cache self = Some x"
    | (n) "ident_cache self = None" "name_as_ident self"
    | (s) "ident_cache self = None" "\<not> name_as_ident self"
    by (cases "ident_cache self") auto
  then have "secret_cache self' = secret_cache self \<and> sec_template self' = sec_template self \<and>
    sec_name self' = sec_name self \<and> (ident_cache self = Some v \<longrightarrow> ident_cache self' = Some v) \<and>
    (memo_inv self \<longrightarrow> memo_inv self') \<and> same_globals w w'"
  proof cases
    case c
    with assms show ?thesis by (simp add: ident_def same_globals_refl)
  next
    case n
    with assms show ?thesis
      by (auto simp: ident_by_name memo_inv_def same_globals_refl)
  next
    case s
    from ident_by_slug[OF s assms] obtain s1 where
      s1: "only_token_type self s1" "same_globals w w'"
      "case r of Inl e \<Rightarrow> self' = s1 | Inr v \<Rightarrow> self' = s1\<lparr>ident_cache := Some v\<rparr>" by blast
    have nn: "\<not> name_as_ident s1"
      using s(2) only_token_type_fields[OF s1(1)] by (simp add: name_as_ident_def)
    have "memo_inv self'"
      using s1(3) nn s(1) only_token_type_fields(1)[OF s1(1)]
      by (cases r) (auto simp: memo_inv_def name_as_ident_def)
    then show ?thesis
      using s s1 only_token_type_fields[OF s1(1)] by (cases r) auto
  qed
  then show "secret_cache self' = secret_cache self" "sec_template self' = sec_template self"
    "sec_name self' = sec_name self"
    "ident_cache self = Some v \<Longrightarrow> ident_cache self' = Some v"
    "memo_inv self \<Longrightarrow> memo_inv self'"
    "same_globals w w'"
    by auto
qed

lemma secret_keeps:
  assumes "secret cfg net self w = (r, self', w')"
  shows "ident_cache self' = ident_cache self" "slug_ident self' = slug_ident self"
    "sec_template self' = sec_template self" "sec_name self' = sec_name self"
    "secret_cache self = Some v \<Longrightarrow> secret_cache self' = Some v"
    "same_globals w w'"
proof -
  have "ident_cache self' = ident_cache self \<and> slug_ident self' = slug_ident self \<and>
    sec_template self' = sec_template self \<and> sec_name self' = sec_name self \<and>
    (secret_cache self = Some v \<longrightarrow> secret_cache self' = Some v) \<and> same_globals w w'"
  proof (cases "secret_cache self")
    case (Some x)
    with assms show ?thesis by (simp add: secret_def same_globals_refl)
  next
    case None
    from secret_fresh[OF None assms] obtain s1 where
      s1: "only_token_type self s1" "same_globals w w'"
      "case r of Inl e \<Rightarrow> self' = s1 | Inr v \<Rightarrow> self' = s1\<lparr>secret_cache := Some v\<rparr>" by blast
    then show ?thesis
      using None only_token_type_fields[OF s1(1)] by (cases r) auto
  qed
  then show "ident_cache self' = ident_cache self" "slug_ident self' = slug_ident self"
    "sec_template self' = sec_template self" "sec_name self' = sec_name self"
    "secret_cache self = Some v \<Longrightarrow> secret_cache self' = Some v"
    "same_globals w w'"
    by auto
qed

lemma memo_inv_cong:
  "ident_cache s' = ident_cache s \<Longrightarrow> slug_ident s' = slug_ident s \<Longrightarrow>
   sec_template s' = sec_template s \<Longrightarrow> sec_name s' = sec_name s \<Longrightarrow> memo_inv s \<Longrightarrow> memo_inv s'"
  by (auto simp: memo_inv_def name_as_ident_def split: option.splits)

lemma exec_keeps:
  assumes "exec cfg net c self w = (self', w')"
  shows "sec_template self' = sec_template self \<and> sec_name self' = sec_name self \<and>
    (ident_cache self = Some v \<longrightarrow> ident_cache self' = Some v) \<and>
    (secret_cache self = Some x \<longrightarrow> secret_cache self' = Some x) \<and>
    (memo_inv self \<longrightarrow> memo_inv self') \<and> same_globals w w'"
proof (cases c)
  case CallIdent
  with assms obtain r where "ident cfg net self w = (r, self', w')"
    by (cases "ident cfg net self w") auto
  from ident_keeps[OF this] show ?thesis by auto
next
  case CallSecret
  with assms obtain r where "secret cfg net self w = (r, self', w')"
    by (cases "secret cfg net self w") auto
  from secret_keeps[OF this] memo_inv_cong[of self' self] show ?thesis by auto
next
  case CallOtp
  with assms obtain r where "otp cfg net self w = (r, self', w')"
    by (cases "otp cfg net self w") auto
  from otp_frame[OF this] have f: "only_token_type self self'" "same_globals w w'" by auto
  from only_token_type_fields[OF f(1)] f(2) memo_inv_cong[of self' self] show ?thesis by auto
next
  case (CallGet u ps)
  with assms obtain r where "get cfg net u ps self w = (r, self', w')"
    by (cases "get cfg net u ps self w") auto
  from get_frame[OF this] have f: "only_token_type self self'" "same_globals w w'" by auto
  from only_token_type_fields[OF f(1)] f(2) memo_inv_cong[of self' self] show ?thesis by auto
next
  case (CallPost u d ps)
  with assms obtain r where "post cfg net u d ps self w = (r, self', w')"
    by (cases "post cfg net u d ps self w") auto
  from post_frame[OF this] have f: "only_token_type self self'" "same_globals w w'" by auto
  from only_token_type_fields[OF f(1)] f(2) memo_inv_cong[of self' self] show ?thesis by auto
qed

lemma run_keeps:
  "run cfg net cs self w = (self', w') \<Longrightarrow>
     sec_template self' = sec_template self \<and> sec_name self' = sec_name self \<and>
     (ident_cache self = Some v \<longrightarrow> ident_cache self' = Some v) \<and>
     (secret_cache self = Some x \<longrightarrow> secret_cache self' = Some x) \<and>
     (memo_inv self \<longrightarrow> memo_inv self') \<and> same_globals w w'"
proof (induction cs arbitrary: self w)
  case Nil
  then show ?case by (simp add: same_globals_refl)
next
  case (Cons c cs)
  obtain s1 w1 where e: "exec cfg net c self w = (s1, w1)" by (cases "exec cfg net c self w") auto
  with Cons.prems have r: "run cfg net cs s1 w1 = (self', w')" by simp
  from Cons.IH[OF r] exec_keeps[OF e, of v x] show ?case
    by (auto intro: same_globals_trans)
qed

text \<open>What a successful construction yields.\<close>

lemma construct_returns:
  assumes "construct cfg net sid si ss uuid w0 = (Inr self, w1)"
  shows "ident_cache self = None" "secret_cache self = None" "secret_id self = sid"
    "\<exists>base hs pre resp summ.
       SSAPP_BASEURL cfg = Some base \<and>
       sent w1 = pre @ [\<lparr>verb = GET, url = base @ ''api/v1/secrets/{id}/summary'', headers = hs,
                         params = [(''id'', PInt sid)], data = []\<rparr>] \<and>
       net pre \<lparr>verb = GET, url = base @ ''api/v1/secrets/{id}/summary'', headers = hs,
                params = [(''id'', PInt sid)], data = []\<rparr> = Reply resp \<and>
       resp_json resp = Some summ \<and>
       py_getitem_str summ ''secretTemplateId'' = Inr (sec_template self) \<and>
       py_getitem_str summ ''name'' = Inr (sec_name self)"
proof -
  let ?s0 = "(new_SSCreds sid si ss uuid)\<lparr>s_open := True\<rparr>"
  let ?w0 = "w0\<lparr>stdout := stdout w0 @ [''Initializing Credential Request: '' @ init_uuid (new_SSCreds sid si ss uuid)]\<rparr>"
  from assms obtain resp s1 summ where
    g: "get cfg net ''api/v1/secrets/{id}/summary'' [(''id'', PInt (secret_id ?s0))] ?s0 ?w0 = (Inr resp, s1, w1)"
    and j: "resp_json resp = Some summ"
    and t: "py_getitem_str summ ''secretTemplateId'' = Inr (sec_template self)"
    and n: "py_getitem_str summ ''name'' = Inr (sec_name self)"
    and self: "self = s1\<lparr>sec_template := sec_template self, sec_name := sec_name self\<rparr>"
    by (auto simp: construct_def model_post_init_def getSecretSummary_def
             split: prod.splits sum.splits option.splits)
  from get_frame[OF g] have f: "only_token_type ?s0 s1" by simp
  have sid: "secret_id ?s0 = sid" by (simp add: new_SSCreds_def)
  from only_token_type_fields[OF f] have
    "ident_cache s1 = None" "secret_cache s1 = None" "secret_id s1 = sid"
    by (simp_all add: new_SSCreds_def)
  then show "ident_cache self = None" "secret_cache self = None" "secret_id self = sid"
    by (subst self, simp)+
  from get_returns[OF g] j t n sid
  show "\<exists>base hs pre resp summ.
       SSAPP_BASEURL cfg = Some base \<and>
       sent w1 = pre @ [\<lparr>verb = GET, url = base @ ''api/v1/secrets/{id}/summary'', headers = hs,
                         params = [(''id'', PInt sid)], data = []\<rparr>] \<and>
       net pre \<lparr>verb = GET, url = base @ ''api/v1/secrets/{id}/summary'', headers = hs,
                params = [(''id'', PInt sid)], data = []\<rparr> = Reply resp \<and>
       resp_json resp = Some summ \<and>
       py_getitem_str summ ''secretTemplateId'' = Inr (sec_template self) \<and>
       py_getitem_str summ ''name'' = Inr (sec_name self)"
    by auto
qed

lemma reachable_memo:
  assumes "construct cfg net sid si ss uuid w0 = (Inr self0, w1)"
      and "run cfg net cs self0 w1 = (self, w)"
  shows "memo_inv self" "sec_template self = sec_template self0" "sec_name self = sec_name self0"
proof -
  from construct_returns(1)[OF assms(1)] have "memo_inv self0" by (simp add: memo_inv_def)
  with run_keeps[OF assms(2)]
  show "memo_inv self" "sec_template self = sec_template self0" "sec_name self = sec_name self0"
    by auto
qed

lemma ident_name_as_ident:
  assumes "memo_inv self" and "name_as_ident self"
  shows "ident cfg net self w =
           (Inr (sec_name self), self\<lparr>slug_ident := sentinel, ident_cache := Some (sec_name self)\<rparr>, w)"
proof (cases "ident_cache self")
  case None
  from None assms(2) show ?thesis by (rule ident_by_name)
next
  case (Some v)
  with assms have "slug_ident self = sentinel" "v = sec_name self" by (auto simp: memo_inv_def)
  with Some have "self\<lparr>slug_ident := sentinel, ident_cache := Some (sec_name self)\<rparr> = self" by simp
  with Some \<open>v = sec_name self\<close> show ?thesis by (simp add: ident_def)
qed

lemma construct_svc:
  "construct ex_cfg svc_net 1234 ''username'' ''password'' ''u1'' fresh_world = (Inr svc_self, svc_world)"
  by (simp add: model_defs ex_defs2)

section \<open>Token resolution: the cache and the provenance\<close>

text \<open>
  C2 (the first token resolution with no cached token performs a password-grant call and
  stores both tokens process-wide; a second, independent resolution reuses the cached
  token and performs no password-grant call). Evaluated on a fresh process against a
  remote side that grants the token \<open>tok1\<close>: the first resolution performs the
  password-grant POST and returns \<open>tok1\<close>, but both globals are still unset afterwards,
  and the resolution of a second instance in the resulting world performs the POST again.
\<close>

theorem accessToken_never_caches:
  "(case accessToken ex_cfg grant_net ex_self fresh_world of
      (r1, self1, w1) \<Rightarrow>
        r1 = Inr (PStr ''tok1'') \<and>
        current_access_token w1 = None \<and> current_refresh_token w1 = None \<and>
        map url (sent w1) = [''https://vault.example/oauth2/token''] \<and>
        (case accessToken ex_cfg grant_net other_self w1 of
           (r2, self2, w2) \<Rightarrow>
             r2 = Inr (PStr ''tok1'') \<and>
             map verb (sent w2) = [POST, POST] \<and>
             map url (sent w2) =
               [''https://vault.example/oauth2/token'', ''https://vault.example/oauth2/token'']))"
  by (simp add: model_defs ex_defs2 other_self_def)

text \<open>
  The provenance after a resolution, in general: it is \<open>Cached\<close> when a cached token was
  found, and otherwise whatever it was before; the server path never sets it.
\<close>

lemma accessToken_never_marks_server:
  "token_type (fst (snd (accessToken cfg net self w))) =
     (if current_access_token w = None then token_type self else Cached)"
proof (cases "current_access_token w")
  case None
  obtain r s' w' where g: "getServerAccessToken cfg net self w = (r, s', w')"
    by (metis prod_cases3)
  from getServerAccessToken_frame[OF g] have "s' = self" by simp
  with None g show ?thesis by (simp add: accessToken_def cachedAccessToken_def)
next
  case (Some t)
  then show ?thesis by (simp add: accessToken_def cachedAccessToken_def)
qed

text \<open>
  C8 (provenance is marked "cached" when the cached token is used and "server" when a new
  token is obtained by password grant). Evaluated on a fresh process: the token comes
  from the server through the password-grant POST, and the provenance of the instance is
  \<open>Cached\<close> afterwards, as the field default has it; an instance that held \<open>Refreshed\<close>
  keeps \<open>Refreshed\<close>. The value \<open>Server\<close> is never assigned.
\<close>

theorem accessToken_server_not_marked:
  "current_access_token fresh_world = None \<and>
   token_type ex_self = Cached \<and>
   fst (accessToken ex_cfg grant_net ex_self fresh_world) = Inr (PStr ''tok1'') \<and>
   map (\<lambda>rq. (verb rq, url rq)) (sent (snd (snd (accessToken ex_cfg grant_net ex_self fresh_world))))
     = [(POST, ''https://vault.example/oauth2/token'')] \<and>
   token_type (fst (snd (accessToken ex_cfg grant_net ex_self fresh_world))) = Cached \<and>
   token_type (fst (snd (accessToken ex_cfg grant_net (ex_self\<lparr>token_type := Refreshed\<rparr>) fresh_world)))
     = Refreshed"
  by (simp add: model_defs ex_defs2)

section \<open>The expired-token retry\<close>

text \<open>
  C1 (the cached tokens are cleared when the first reply carries the expired-token marker,
  and the request is re-issued once). Evaluated on a process whose globals hold a stale
  token pair and whose first GET is answered with the marker: the request is re-issued
  once and the second reply is returned, but both globals still hold the stale pair
  afterwards, and the retry carries the same stale bearer token as the first send.
\<close>

theorem get_expired_keeps_globals:
  "(case get ex_cfg expired_once_net ''api/v1/secrets/{id}/summary'' [(''id'', PInt 1234)]
           ex_self stale_world of
      (r, self', w') \<Rightarrow>
        r = Inr field_page \<and>
        current_access_token w' = Some ''stale'' \<and>
        current_refresh_token w' = Some ''old'' \<and>
        map headers (sent w') =
          [[(''Authorization'', ''Bearer stale'')], [(''Authorization'', ''Bearer stale'')]])"
  by (simp add: model_defs ex_defs)

text \<open>
  C3, as stated (the retry is checked for the HTTP status only and for no marker text),
  fails: when the reply to the retry has status 200 and carries the access-denied marker,
  \<^verbatim>\<open>get\<close> raises the access-denied error instead of returning that reply.
\<close>

theorem retry_rechecks_access_denied:
  "status_code denied_page = 200 \<and>
   (case get ex_cfg denied_on_retry_net ''api/v1/secrets/{id}/summary'' [(''id'', PInt 1234)]
           ex_self stale_world of
      (r, self', w') \<Rightarrow>
        map verb (sent w') = [GET, GET] \<and>
        denied_on_retry_net [hd (sent w')] (last (sent w')) = Reply denied_page \<and>
        r = Inl access_denied \<and> r \<noteq> Inr denied_page)"
  by (simp add: model_defs ex_defs2)

text \<open>
  C3, amended: the first send is checked for a non-success status, for the access-denied
  marker and for the expired-token marker; the single retry is checked for a non-success
  status and for the access-denied marker, and not for the expired-token marker. With
  \<open>r1\<close> the reply to the first GET and \<open>r2\<close> the reply to the retry:
\<close>

theorem get_checks:
  assumes "s_open self" and "SSAPP_BASEURL cfg = Some base"
    and "getHeaders cfg net self w = (Inr hs1, self1, w1)"
    and "net (sent w1) \<lparr>verb = GET, url = base @ u, headers = hs1, params = ps, data = []\<rparr> = Reply r1"
    and "getHeaders cfg net self1
           (w1\<lparr>sent := sent w1 @ [\<lparr>verb = GET, url = base @ u, headers = hs1, params = ps, data = []\<rparr>],
               stdout := stdout w1 @ [''Deleting token and repeating request'']\<rparr>) = (Inr hs2, self2, w2)"
    and "net (sent w2) \<lparr>verb = GET, url = base @ u, headers = hs2, params = ps, data = []\<rparr> = Reply r2"
  shows "fst (get cfg net u ps self w) =
           (if \<not> is_success r1 then Inl HTTPStatusError
            else if py_in_str ''API_AccessDenied'' (resp_text r1) then Inl access_denied
            else if \<not> py_in_str ''Authentication failed or expired token'' (resp_text r1) then Inr r1
            else if \<not> is_success r2 then Inl HTTPStatusError
            else if py_in_str ''API_AccessDenied'' (resp_text r2) then Inl access_denied
            else Inr r2)"
proof -
  let ?rq1 = "\<lparr>verb = GET, url = base @ u, headers = hs1, params = ps, data = []\<rparr>"
  have open1: "s_open self1"
    using getHeaders_frame[OF assms(3)] only_token_type_fields(7) assms(1) by blast
  have first: "sendRequest cfg net u ps self w = (checked r1, self1, w1\<lparr>sent := sent w1 @ [?rq1]\<rparr>)"
    by (rule sendRequest_unfold[OF assms(1-4)])
  have retry: "fst (sendRequest cfg net u ps self1
           (w1\<lparr>sent := sent w1 @ [?rq1], stdout := stdout w1 @ [''Deleting token and repeating request'']\<rparr>))
         = checked r2"
    using sendRequest_unfold[OF open1 assms(2) assms(5) assms(6)] by simp
  show ?thesis
    using first retry
    by (auto simp: get_def checked_def raise_for_status_def split: prod.splits sum.splits)
qed

text \<open>
  On a remote side that answers every GET with the expired-token marker, the reply to the
  retry is returned although it carries the marker.
\<close>

theorem get_checks_witness:
  "fst (get ex_cfg always_expired_net ''api/v1/secrets/{id}/summary'' [(''id'', PInt 1234)]
          ex_self stale_world) = Inr expired_page \<and>
   py_in_str ''Authentication failed or expired token'' (resp_text expired_page)"
proof -
  let ?hs = "[(''Authorization'', ''Bearer stale'')]"
  let ?u = "''api/v1/secrets/{id}/summary''"
  let ?ps = "[(''id'', PInt 1234)]"
  let ?base = "''https://vault.example/''"
  let ?rq = "\<lparr>verb = GET, url = ?base @ ?u, headers = ?hs, params = ?ps, data = []\<rparr>"
  let ?w2 = "stale_world\<lparr>sent := sent stale_world @ [?rq],
               stdout := stdout stale_world @ [''Deleting token and repeating request'']\<rparr>"
  have 1: "s_open ex_self" by (simp add: ex_defs new_SSCreds_def)
  have 2: "SSAPP_BASEURL ex_cfg = Some ?base" by (simp add: ex_defs)
  have 3: "getHeaders ex_cfg always_expired_net ex_self stale_world = (Inr ?hs, ex_self, stale_world)"
    by (simp add: model_defs ex_defs2)
  have 4: "always_expired_net (sent stale_world) ?rq = Reply expired_page"
    by (simp add: ex_defs2)
  have 5: "getHeaders ex_cfg always_expired_net ex_self ?w2 = (Inr ?hs, ex_self, ?w2)"
    by (simp add: model_defs ex_defs2)
  have 6: "always_expired_net (sent ?w2) ?rq = Reply expired_page"
    by (simp add: ex_defs2)
  have m: "py_in_str ''Authentication failed or expired token'' (resp_text expired_page)"
    by (simp add: ex_defs2)
  have s: "is_success expired_page" "\<not> py_in_str ''API_AccessDenied'' (resp_text expired_page)"
    by (simp_all add: ex_defs2 is_success_def)
  from get_checks[OF 1 2 3 4 5 6] m s show ?thesis by simp
qed

section \<open>Access denied in the body\<close>

text \<open>
  C7: whenever a GET sent during a call of \<^verbatim>\<open>get\<close> (the first send or the retry) is
  answered with a success status (200 among them) and a body that carries the
  access-denied marker, the call raises the access-denied error; it does not return the
  reply.
\<close>

theorem access_denied_in_band:
  assumes "get cfg net u ps self w = (r, self', w')"
      and "any_denied net (sent w) (drop (length (sent w)) (sent w'))"
  shows "r = Inl access_denied"
proof -
  obtain r1 s1 w1 where s1: "sendRequest cfg net u ps self w = (r1, s1, w1)"
    by (metis prod_cases3)
  from sendRequest_sent[OF s1] obtain e1 where
    e1: "sent w1 = sent w @ e1" "any_denied net (sent w) e1 \<Longrightarrow> r1 = Inl access_denied" by blast
  show ?thesis
  proof (cases "\<exists>resp. r1 = Inr resp \<and> py_in_str ''Authentication failed or expired token'' (resp_text resp)")
    case False
    with assms(1) s1 have "r = r1" "w' = w1"
      by (auto simp: get_def split: sum.splits if_splits)
    with assms(2) e1 show ?thesis by simp
  next
    case True
    then obtain resp where resp: "r1 = Inr resp"
      "py_in_str ''Authentication failed or expired token'' (resp_text resp)" by blast
    let ?w = "w1\<lparr>stdout := stdout w1 @ [''Deleting token and repeating request'']\<rparr>"
    obtain r2 s2 w2 where s2: "sendRequest cfg net u ps s1 ?w = (r2, s2, w2)"
      by (metis prod_cases3)
    from sendRequest_sent[OF s2] obtain e2 where
      e2: "sent w2 = sent w1 @ e2" "any_denied net (sent w1) e2 \<Longrightarrow> r2 = Inl access_denied"
      by auto
    from assms(1) s1 s2 resp have w': "w' = w2" and r: "r2 = Inl access_denied \<Longrightarrow> r = Inl access_denied"
      by (auto simp: get_def split: sum.splits if_splits)
    from e1(2) resp have "\<not> any_denied net (sent w) e1" by auto
    with assms(2) w' e1(1) e2(1) have "any_denied net (sent w1) e2"
      by (simp add: any_denied_append)
    with e2(2) r show ?thesis by simp
  qed
qed

theorem access_denied_in_band_witness:
  "status_code denied_page = 200 \<and>
   py_in_str ''API_AccessDenied'' (resp_text denied_page) \<and>
   any_denied denied_net (sent stale_world)
     (drop (length (sent stale_world))
        (sent (snd (snd (get ex_cfg denied_net ''api/v1/secrets/{id}/summary'' [(''id'', PInt 1234)]
                           ex_self stale_world))))) \<and>
   fst (get ex_cfg denied_net ''api/v1/secrets/{id}/summary'' [(''id'', PInt 1234)] ex_self stale_world)
     = Inl access_denied"
proof -
  let ?g = "get ex_cfg denied_net ''api/v1/secrets/{id}/summary'' [(''id'', PInt 1234)] ex_self stale_world"
  have g: "?g = (fst ?g, fst (snd ?g), snd (snd ?g))" by simp
  have d: "any_denied denied_net (sent stale_world) (drop (length (sent stale_world)) (sent (snd (snd ?g))))"
    by (simp add: model_defs ex_defs2 denied_get_def)
  have p: "status_code denied_page = 200" "py_in_str ''API_AccessDenied'' (resp_text denied_page)"
    by (simp_all add: ex_defs2)
  from access_denied_in_band[OF g d] d p show ?thesis by simp
qed

section \<open>The one-time password\<close>

text \<open>
  Whatever the remote side replies, the accessor \<open>otp\<close> raises: \<^verbatim>\<open>_getTOTP\<close> returns the
  stripped body text, a string; its element 0 is a one-character string (or an
  IndexError), and a string index of a string is a TypeError.
\<close>

lemma otp_never_returns: "\<exists>e. fst (otp cfg net self w) = Inl e"
proof (cases "getTOTP cfg net self w")
  case (fields r self1 w1)
  show ?thesis
  proof (cases r)
    case (Inl e)
    with fields show ?thesis by (simp add: otp_def)
  next
    case (Inr t)
    show ?thesis
    proof (cases "py_index t 0")
      case (Inl e)
      with fields Inr show ?thesis by (simp add: otp_def)
    next
      case (Inr c)
      with fields \<open>r = Inr t\<close> show ?thesis by (simp add: otp_def)
    qed
  qed
qed

text \<open>
  C4 (every access of \<open>otp\<close> issues an authenticated GET to the one-time-password
  endpoint and returns the \<open>code\<close> field of the first element of the parsed list).
  Evaluated on a remote side that answers the GET with a well-formed list holding the
  code 123456: the GET is issued, and the accessor raises a TypeError.
\<close>

theorem otp_raises_type_error:
  "svc_net (sent svc_world @ [\<lparr>verb = POST, url = ''https://vault.example/oauth2/token'', headers = [],
                               params = [],
                               data = [(''grant_type'', PStr ''password''), (''username'', PStr ''svc''),
                                       (''password'', PStr ''pw'')]\<rparr>])
           \<lparr>verb = GET, url = ''https://vault.example/api/v1/one-time-password-code/{id}'',
            headers = [(''Authorization'', ''Bearer tok1'')], params = [(''id'', PInt 1234)],
            data = []\<rparr> = Reply otp_page \<and>
   fst (otp ex_cfg svc_net svc_self svc_world) = Inl TypeError"
  by (simp add: model_defs ex_defs2)

section \<open>The URL of a field request\<close>

text \<open>
  Whenever \<^verbatim>\<open>_getSlug\<close> returns, the last request sent is the GET of the field, and its URL is
  the base followed by the template as written, whatever the identifier and the slug.
\<close>

lemma getSlug_request:
  assumes "getSlug cfg net slug self w = (Inr v, self', w')"
  shows "\<exists>base hs pre. SSAPP_BASEURL cfg = Some base \<and>
           sent w' = pre @ [\<lparr>verb = GET, url = base @ ''api/v1/secrets/{id}/fields/{slug}'',
                             headers = hs,
                             params = [(''id'', PInt (secret_id self)), (''slug'', PStr slug)],
                             data = []\<rparr>]"
proof -
  from assms obtain resp where
    "get cfg net ''api/v1/secrets/{id}/fields/{slug}''
       [(''id'', PInt (secret_id self)), (''slug'', PStr slug)] self w = (Inr resp, self', w')"
    by (auto simp: getSlug_def split: prod.splits sum.splits)
  from get_returns[OF this] show ?thesis by blast
qed

text \<open>
  C9 (the field request goes to \<open>{base}/api/v1/secrets/{id}/fields/{slug}\<close> with the
  identifier and the slug substituted into the path). Evaluated for secret 1234, slug
  \<open>username\<close>, and for secret 99, slug \<open>pin\<close>: both requests carry the same URL, with the
  placeholders \<open>{id}\<close> and \<open>{slug}\<close> left as they are, and the identifier and the slug
  travel in \<^verbatim>\<open>params\<close>, the query string.
\<close>

theorem getSlug_url_is_template:
  "map (\<lambda>rq. (verb rq, url rq, params rq))
       (sent (snd (snd (getSlug ex_cfg grant_net ''username'' ex_self stale_world))))
     = [(GET, ''https://vault.example/api/v1/secrets/{id}/fields/{slug}'',
         [(''id'', PInt 1234), (''slug'', PStr ''username'')])] \<and>
   map (\<lambda>rq. (verb rq, url rq, params rq))
       (sent (snd (snd (getSlug ex_cfg grant_net ''pin'' other_self stale_world))))
     = [(GET, ''https://vault.example/api/v1/secrets/{id}/fields/{slug}'',
         [(''id'', PInt 99), (''slug'', PStr ''pin'')])]"
  by (simp add: model_defs ex_defs2 other_self_def)

section \<open>The identity of a service-account secret\<close>

text \<open>
  C5: for an instance whose construction succeeded and whose template id is in
  \<open>SEC_NAME_AS_IDENT\<close>, that is in {6041, 6047}, the accessor \<open>ident\<close>, at any point of the
  life of the instance, returns the name that the summary reply of the construction
  carried, and leaves the world as it is: it sends no request.
\<close>

theorem ident_is_summary_name:
  assumes "construct cfg net sid si ss uuid w0 = (Inr self0, w1)"
      and "run cfg net cs self0 w1 = (self, w)"
      and "py_in_ints (sec_template self0) SEC_NAME_AS_IDENT"
  shows "\<exists>base hs pre resp summ.
           SSAPP_BASEURL cfg = Some base \<and>
           sent w1 = pre @ [\<lparr>verb = GET, url = base @ ''api/v1/secrets/{id}/summary'', headers = hs,
                             params = [(''id'', PInt sid)], data = []\<rparr>] \<and>
           net pre \<lparr>verb = GET, url = base @ ''api/v1/secrets/{id}/summary'', headers = hs,
                    params = [(''id'', PInt sid)], data = []\<rparr> = Reply resp \<and>
           resp_json resp = Some summ \<and>
           py_getitem_str summ ''name'' = Inr (sec_name self0) \<and>
           fst (ident cfg net self w) = Inr (sec_name self0) \<and>
           snd (snd (ident cfg net self w)) = w"
proof -
  from reachable_memo[OF assms(1,2)] have
    m: "memo_inv self" and t: "sec_template self = sec_template self0"
    and n: "sec_name self = sec_name self0" by auto
  from t assms(3) have "name_as_ident self" by (simp add: name_as_ident_def)
  from ident_name_as_ident[OF m this, of cfg net w] n
  have "fst (ident cfg net self w) = Inr (sec_name self0)" "snd (snd (ident cfg net self w)) = w"
    by simp_all
  with construct_returns(4)[OF assms(1)] show ?thesis by auto
qed

theorem ident_is_summary_name_witness:
  "construct ex_cfg svc_net 1234 ''username'' ''password'' ''u1'' fresh_world = (Inr svc_self, svc_world) \<and>
   py_in_ints (sec_template svc_self) SEC_NAME_AS_IDENT \<and>
   fst (ident ex_cfg svc_net (fst (run ex_cfg svc_net [CallSecret, CallIdent] svc_self svc_world))
                             (snd (run ex_cfg svc_net [CallSecret, CallIdent] svc_self svc_world)))
     = Inr (PStr ''svc-iam'') \<and>
   snd (snd (ident ex_cfg svc_net (fst (run ex_cfg svc_net [CallSecret, CallIdent] svc_self svc_world))
                                  (snd (run ex_cfg svc_net [CallSecret, CallIdent] svc_self svc_world))))
     = snd (run ex_cfg svc_net [CallSecret, CallIdent] svc_self svc_world)"
proof -
  let ?r = "run ex_cfg svc_net [CallSecret, CallIdent] svc_self svc_world"
  have c: "construct ex_cfg svc_net 1234 ''username'' ''password'' ''u1'' fresh_world = (Inr svc_self, svc_world)"
    by (rule construct_svc)
  have r: "?r = (fst ?r, snd ?r)" by simp
  have t: "py_in_ints (sec_template svc_self) SEC_NAME_AS_IDENT"
    by (simp add: svc_self_def py_in_ints_def SEC_NAME_AS_IDENT_def)
  have n: "sec_name svc_self = PStr ''svc-iam''" by (simp add: svc_self_def)
  from ident_is_summary_name[OF c r t]
  have "fst (ident ex_cfg svc_net (fst ?r) (snd ?r)) = Inr (sec_name svc_self) \<and>
        snd (snd (ident ex_cfg svc_net (fst ?r) (snd ?r))) = snd ?r" by blast
  with c t n show ?thesis by simp
qed

text \<open>
  C10: on an instance whose template id is in the classification set, or whose
  \<open>slug_ident\<close> is the sentinel already, an access of \<open>ident\<close> leaves \<open>slug_ident\<close> equal to
  the sentinel \<open>$self._sec_name\<close>; besides \<open>slug_ident\<close> and the memo slot no field of
  the instance changes, and the world does not change.
\<close>

theorem ident_rewrites_slug:
  assumes "construct cfg net sid si ss uuid w0 = (Inr self0, w1)"
      and "run cfg net cs self0 w1 = (self, w)"
      and "slug_ident self = sentinel \<or> py_in_ints (sec_template self) SEC_NAME_AS_IDENT"
  shows "ident cfg net self w =
           (Inr (sec_name self), self\<lparr>slug_ident := sentinel, ident_cache := Some (sec_name self)\<rparr>, w)"
proof -
  from assms(3) have "name_as_ident self" by (simp add: name_as_ident_def)
  with reachable_memo(1)[OF assms(1,2)] show ?thesis by (rule ident_name_as_ident)
qed

theorem ident_rewrites_slug_witness:
  "construct ex_cfg svc_net 1234 ''username'' ''password'' ''u1'' fresh_world = (Inr svc_self, svc_world) \<and>
   py_in_ints (sec_template svc_self) SEC_NAME_AS_IDENT \<and>
   slug_ident svc_self = ''username'' \<and>
   ident ex_cfg svc_net svc_self svc_world =
     (Inr (PStr ''svc-iam''),
      svc_self\<lparr>slug_ident := ''$self._sec_name'', ident_cache := Some (PStr ''svc-iam'')\<rparr>, svc_world)"
proof -
  have c: "construct ex_cfg svc_net 1234 ''username'' ''password'' ''u1'' fresh_world = (Inr svc_self, svc_world)"
    by (rule construct_svc)
  have r: "run ex_cfg svc_net [] svc_self svc_world = (svc_self, svc_world)" by simp
  have t: "py_in_ints (sec_template svc_self) SEC_NAME_AS_IDENT"
    by (simp add: svc_self_def py_in_ints_def SEC_NAME_AS_IDENT_def)
  then have t': "slug_ident svc_self = sentinel \<or> py_in_ints (sec_template svc_self) SEC_NAME_AS_IDENT"
    by simp
  have n: "sec_name svc_self = PStr ''svc-iam''" "slug_ident svc_self = ''username''"
    by (simp_all add: svc_self_def new_SSCreds_def)
  from ident_rewrites_slug[OF c r t'] c t n show ?thesis by (simp add: sentinel_def)
qed

section \<open>Memoization\<close>

text \<open>
  C6: once \<open>ident\<close> (or \<open>secret\<close>) has returned a value, every later access, after any
  sequence of calls on the instance, returns the same value and leaves the instance and
  the world as they are, so no request is sent.
\<close>

theorem memoized_accessors:
  "(ident cfg net self w = (Inr v, self1, w1) \<and> run cfg net cs self1 w1 = (self2, w2)
      \<longrightarrow> ident cfg net self2 w2 = (Inr v, self2, w2)) \<and>
   (secret cfg net self w = (Inr x, self1, w1) \<and> run cfg net cs self1 w1 = (self2, w2)
      \<longrightarrow> secret cfg net self2 w2 = (Inr x, self2, w2))"
proof (intro conjI impI)
  assume a: "ident cfg net self w = (Inr v, self1, w1) \<and> run cfg net cs self1 w1 = (self2, w2)"
  then have "ident_cache self1 = Some v" by (auto dest: ident_returns_cached)
  with a run_keeps[of cfg net cs self1 w1 self2 w2 v] have "ident_cache self2 = Some v" by simp
  then show "ident cfg net self2 w2 = (Inr v, self2, w2)" by (rule ident_cached)
next
  assume a: "secret cfg net self w = (Inr x, self1, w1) \<and> run cfg net cs self1 w1 = (self2, w2)"
  then have "secret_cache self1 = Some x" by (auto dest: secret_returns_cached)
  with a run_keeps[of cfg net cs self1 w1 self2 w2 _ x] have "secret_cache self2 = Some x" by simp
  then show "secret cfg net self2 w2 = (Inr x, self2, w2)" by (rule secret_cached)
qed

theorem memoized_accessors_witness:
  "fst (ident ex_cfg grant_net ex_self fresh_world) = Inr (PStr ''svc-acct'') \<and>
   fst (secret ex_cfg grant_net ex_self fresh_world) = Inr ''svc-acct'' \<and>
   (let i = snd (ident ex_cfg grant_net ex_self fresh_world);
        a = run ex_cfg grant_net [CallSecret, CallOtp, CallIdent] (fst i) (snd i)
    in ident ex_cfg grant_net (fst a) (snd a) = (Inr (PStr ''svc-acct''), fst a, snd a)) \<and>
   (let s = snd (secret ex_cfg grant_net ex_self fresh_world);
        a = run ex_cfg grant_net [CallSecret, CallOtp, CallIdent] (fst s) (snd s)
    in secret ex_cfg grant_net (fst a) (snd a) = (Inr ''svc-acct'', fst a, snd a))"
proof -
  let ?cs = "[CallSecret, CallOtp, CallIdent]"
  let ?i = "ident ex_cfg grant_net ex_self fresh_world"
  let ?s = "secret ex_cfg grant_net ex_self fresh_world"
  let ?ai = "run ex_cfg grant_net ?cs (fst (snd ?i)) (snd (snd ?i))"
  let ?as = "run ex_cfg grant_net ?cs (fst (snd ?s)) (snd (snd ?s))"
  have i: "fst ?i = Inr (PStr ''svc-acct'')" by (simp add: model_defs ex_defs2)
  have s: "fst ?s = Inr ''svc-acct''" by (simp add: model_defs ex_defs2)
  from i have hi: "?i = (Inr (PStr ''svc-acct''), fst (snd ?i), snd (snd ?i)) \<and> ?ai = (fst ?ai, snd ?ai)"
    by (simp add: prod_eq_iff)
  from s have hs: "?s = (Inr ''svc-acct'', fst (snd ?s), snd (snd ?s)) \<and> ?as = (fst ?as, snd ?as)"
    by (simp add: prod_eq_iff)
  from memoized_accessors[of ex_cfg grant_net ex_self fresh_world "PStr ''svc-acct''"
         "fst (snd ?i)" "snd (snd ?i)" ?cs "fst ?ai" "snd ?ai"] hi
  have ci: "ident ex_cfg grant_net (fst ?ai) (snd ?ai) = (Inr (PStr ''svc-acct''), fst ?ai, snd ?ai)"
    by blast
  from memoized_accessors[of ex_cfg grant_net ex_self fresh_world _
         "fst (snd ?s)" "snd (snd ?s)" ?cs "fst ?as" "snd ?as" "''svc-acct''"] hs
  have cs: "secret ex_cfg grant_net (fst ?as) (snd ?as) = (Inr ''svc-acct'', fst ?as, snd ?as)"
    by blast
  from i s ci cs show ?thesis by (simp add: Let_def)
qed

end
